theory Spec2Isabelle
  imports Complex_Main
begin

section \<open>Values\<close>

text \<open>
  The values an application keeps under its keys in a session. They are stored and
  compared, never inspected.
\<close>

datatype jsval =
    JNull
  | JBool bool
  | JNum int
  | JStr string
  | JArr "jsval list"
  | JMap "(string \<times> jsval) list"

text \<open>
  The serialized session: the application's keys, in insertion order, and the two reserved
  fields \<open>_expire\<close> and \<open>_maxAge\<close>, each a number when it is there. Numbers are the
  integers (millisecond clock readings and durations).
\<close>

record payload =
  expire_field :: "int option"
  maxAge_field :: "int option"
  entries :: "(string \<times> jsval) list"

text \<open>
  What a store, a codec or the application hands to the coordinator: a mapping (a
  payload), or another JavaScript value.
\<close>

datatype jsvalue =
    VUndefined
  | VNull
  | VBool bool
  | VNum int
  | VStr string
  | VArr "jsval list"
  | VObj payload

fun truthy :: "jsvalue \<Rightarrow> bool" where
  "truthy VUndefined = False"
| "truthy VNull = False"
| "truthy (VBool b) = b"
| "truthy (VNum n) = (n \<noteq> 0)"
| "truthy (VStr s) = (s \<noteq> [])"
| "truthy (VArr xs) = True"
| "truthy (VObj p) = True"

fun typeof :: "jsvalue \<Rightarrow> string" where
  "typeof VUndefined = ''undefined''"
| "typeof VNull = ''object''"
| "typeof (VBool b) = ''boolean''"
| "typeof (VNum n) = ''number''"
| "typeof (VStr s) = ''string''"
| "typeof (VArr xs) = ''object''"
| "typeof (VObj p) = ''object''"

text \<open>Truthiness of an optional number (\<open>undefined\<close> and \<open>0\<close> are falsy).\<close>

fun truthy_num :: "int option \<Rightarrow> bool" where
  "truthy_num None = False"
| "truthy_num (Some n) = (n \<noteq> 0)"

text \<open>Truthiness of an optional string (\<open>undefined\<close> and the empty string are falsy).\<close>

fun truthy_str :: "string option \<Rightarrow> bool" where
  "truthy_str None = False"
| "truthy_str (Some s) = (s \<noteq> [])"

text \<open>\<open>value._expire\<close>, read from a truthy value: only a mapping has the property.\<close>

fun expire_of :: "jsvalue \<Rightarrow> int option" where
  "expire_of (VObj p) = expire_field p"
| "expire_of v = None"

text \<open>\<open>Object.keys(json)\<close>.\<close>

definition keys :: "payload \<Rightarrow> string list" where
  "keys p =
     (case expire_field p of None \<Rightarrow> [] | Some e \<Rightarrow> [''_expire'']) @
     (case maxAge_field p of None \<Rightarrow> [] | Some m \<Rightarrow> [''_maxAge'']) @
     map fst (entries p)"

definition empty_payload :: payload where
  "empty_payload = \<lparr>expire_field = None, maxAge_field = None, entries = []\<rparr>"

section \<open>Errors\<close>

datatype errkind = SyntaxError | TypeError | OtherError

section \<open>Collaborators\<close>

text \<open>The request context: its identity and the cookies the request carries.\<close>

record koa_ctx =
  ctx_id :: nat
  req_cookies :: "string \<Rightarrow> string option"

text \<open>
  Modelled from the spec: the session value object, whose class \<open>Session\<close>
  (\<open>./session\<close>) is not among the sources. Section 4.1: \<open>isNew\<close> is true iff the
  object was constructed without an initial payload; \<open>toJSON\<close> produces the application
  keys and \<open>_expire\<close>/\<open>_maxAge\<close> if set; the \<open>maxAge\<close> and \<open>expire\<close> accessors
  read the reserved fields; a transient require-save flag (\<open>_requireSave\<close>) may be set
  by the application.
\<close>

record Session =
  isNew :: bool
  requireSave :: bool
  content :: payload

text \<open>
  Modelled from the spec: \<open>new Session(ctx, val)\<close>. Without a payload the session is
  fresh and empty; from a mapping it is hydrated with that mapping. The spec defines
  hydration for mappings only: another truthy value brings no keys here.
\<close>

fun Session_new :: "koa_ctx \<Rightarrow> jsvalue \<Rightarrow> Session" where
  "Session_new c (VObj p) = \<lparr>isNew = False, requireSave = False, content = p\<rparr>"
| "Session_new c v = \<lparr>isNew = \<not> truthy v, requireSave = False, content = empty_payload\<rparr>"

text \<open>Modelled from the spec: \<open>session.toJSON()\<close>, a fresh mapping each time.\<close>

definition toJSON :: "Session \<Rightarrow> payload" where
  "toJSON s = content s"

text \<open>Modelled from the spec: the accessors \<open>session._expire\<close> and \<open>session.maxAge\<close>.\<close>

definition session_expire :: "Session \<Rightarrow> int option" where
  "session_expire s = expire_field (content s)"

definition session_maxAge :: "Session \<Rightarrow> int option" where
  "session_maxAge s = maxAge_field (content s)"

text \<open>
  An error object: what \<open>instanceof SyntaxError\<close> sees, its message, and the
  \<open>headers\<close> property the coordinator may attach (the \<open>set-cookie\<close> response header,
  a list of cookie name, value and options reference).
\<close>

record jserror =
  kind :: errkind
  message :: string
  headers :: "(string \<times> string \<times> nat) list option"

text \<open>
  The store collaborator. Its calls are asynchronous and may fail: each answer is either
  a value (the promise resolves) or an error (it rejects).
\<close>

record Store =
  store_get :: "string \<Rightarrow> jserror + jsvalue"
  store_set :: "string \<Rightarrow> payload \<Rightarrow> jserror option"
  store_destroy :: "string \<Rightarrow> jserror option"

text \<open>The configured max-age: unset, the string \<open>'session'\<close>, or a number.\<close>

datatype maxage = MUndefined | MSession | MNum int

text \<open>
  The configuration object \<open>opts\<close>. The callbacks \<open>valid\<close> and \<open>beforeSave\<close> are
  optional (\<open>typeof ... === 'function'\<close>); \<open>genid\<close> is stateful, so it is indexed by
  the number of calls made before. The callbacks are taken to return: only \<open>decode\<close>,
  which the coordinator calls inside \<open>try\<close>, may throw. \<open>beforeSave\<close> is taken to
  change nothing but the session object it is given.
\<close>

record options =
  key :: string
  maxAge :: maxage
  rolling :: bool
  renew :: bool
  valid_opt :: "(koa_ctx \<Rightarrow> jsvalue \<Rightarrow> bool) option"
  beforeSave :: "(koa_ctx \<Rightarrow> Session \<Rightarrow> Session) option"
  encode :: "payload \<Rightarrow> string"
  decode :: "string \<Rightarrow> jserror + jsvalue"
  genid :: "nat \<Rightarrow> string"
  ContextStore :: "(koa_ctx \<Rightarrow> Store) option"
  store_opt :: "Store option"

section \<open>The world outside one coordinator\<close>

text \<open>The data of a notification: \<open>{key, value, ctx}\<close>.\<close>

type_synonym evdata = "string option \<times> jsvalue \<times> koa_ctx"

text \<open>The local variable \<open>maxAge\<close> of \<open>save\<close>: the string \<open>'session'\<close> or a number.\<close>

datatype local_maxAge = LSession | LNum int

text \<open>Every call that leaves the coordinator, in the order it is made.\<close>

datatype effect =
    GenId
  | CookieSet string string nat
  | StoreGet string maxage bool
  | StoreSet string payload local_maxAge bool bool
  | StoreDestroy string
  | Encode payload
  | Decode string
  | BeforeSave
  | AppEmit string evdata

text \<open>
  Configuration objects live in a heap and are passed by reference, so that two
  coordinators built from the same \<open>opts\<close> see each other's writes. \<open>immediates\<close> is
  the queue of callbacks given to \<open>setImmediate\<close>, which run after the current turn.
\<close>

record world =
  heap :: "nat \<Rightarrow> options"
  effects :: "effect list"
  immediates :: "(string \<times> evdata) list"
  ids :: nat

datatype slot = Unset | Cleared | Loaded Session

record ContextSession =
  ctx :: koa_ctx
  opts :: nat
  store :: "Store option"
  session :: slot
  externalKey :: "string option"
  prevHash :: "int option"

datatype 'a outcome = Returned 'a | Thrown jserror

definition ONE_DAY :: int where
  "ONE_DAY = 24 * 60 * 60 * 1000"

definition call :: "effect \<Rightarrow> world \<Rightarrow> world" where
  "call e w = w\<lparr>effects := effects w @ [e]\<rparr>"

text \<open>\<open>ctx.response.get('set-cookie')\<close>: the cookies written to the response so far.\<close>

fun set_cookie_header :: "effect list \<Rightarrow> (string \<times> string \<times> nat) list" where
  "set_cookie_header [] = []"
| "set_cookie_header (CookieSet n v r # es) = (n, v, r) # set_cookie_header es"
| "set_cookie_header (e # es) = set_cookie_header es"

text \<open>The event loop reaching the queued callbacks: each one calls \<open>app.emit\<close>.\<close>

definition run_immediates :: "world \<Rightarrow> world" where
  "run_immediates w =
     w\<lparr>effects := effects w @ map (\<lambda>(ev, d). AppEmit (''session:'' @ ev) d) (immediates w),
       immediates := []\<rparr>"

section \<open>The session coordinator\<close>

text \<open>
  \<open>constructor(ctx, opts)\<close>: the coordinator keeps the reference to \<open>opts\<close>, not a
  copy, and takes its store from \<open>opts.ContextStore\<close> or else \<open>opts.store\<close>.
\<close>

definition constructor :: "world \<Rightarrow> koa_ctx \<Rightarrow> nat \<Rightarrow> ContextSession" where
  "constructor w c r =
     \<lparr>ctx = c, opts = r,
      store = (case ContextStore (heap w r) of Some f \<Rightarrow> Some (f c) | None \<Rightarrow> store_opt (heap w r)),
      session = Unset, externalKey = None, prevHash = None\<rparr>"

text \<open>
  \<open>create(val, externalKey)\<close>: with a store, the key is the one given if it is truthy
  and a fresh one from \<open>opts.genid()\<close> otherwise.
\<close>

definition create :: "world \<Rightarrow> ContextSession \<Rightarrow> jsvalue \<Rightarrow> string option \<Rightarrow> world \<times> ContextSession" where
  "create w cs val ek =
     (let (w1, cs1) =
        (if store cs \<noteq> None then
           (if truthy_str ek then (w, cs\<lparr>externalKey := ek\<rparr>)
            else ((call GenId w)\<lparr>ids := Suc (ids w)\<rparr>,
                  cs\<lparr>externalKey := Some (genid (heap w (opts cs)) (ids w))\<rparr>))
         else (w, cs))
      in (w1, cs1\<lparr>session := Loaded (Session_new (ctx cs) val)\<rparr>))"

text \<open>\<open>set(val)\<close>, the logic of \<open>ctx.session = val\<close>.\<close>

definition set_session :: "world \<Rightarrow> ContextSession \<Rightarrow> jsvalue \<Rightarrow> unit outcome \<times> world \<times> ContextSession" where
  "set_session w cs val =
     (if val = VNull then (Returned (), w, cs\<lparr>session := Cleared\<rparr>)
      else if typeof val = ''object'' then
        (let (w1, cs1) = create w cs val (externalKey cs) in (Returned (), w1, cs1))
      else (Thrown \<lparr>kind = OtherError,
                    message = ''this.session can only be set as null or an object.'',
                    headers = None\<rparr>, w, cs))"

text \<open>\<open>emit(event, data)\<close>: nothing is emitted now; a callback is queued.\<close>

definition emit :: "world \<Rightarrow> string \<Rightarrow> evdata \<Rightarrow> world" where
  "emit w event d = w\<lparr>immediates := immediates w @ [(event, d)]\<rparr>"

text \<open>
  \<open>valid(value, key)\<close>, with the reading of \<open>Date.now()\<close> as \<open>now\<close>. The optional
  validator is called with the context and the value.
\<close>

definition valid :: "int \<Rightarrow> world \<Rightarrow> ContextSession \<Rightarrow> jsvalue \<Rightarrow> string option \<Rightarrow> bool \<times> world" where
  "valid now w cs val k =
     (if \<not> truthy val then (False, emit w ''missed'' (k, val, ctx cs))
      else if truthy_num (expire_of val) \<and> the (expire_of val) < now
        then (False, emit w ''expired'' (k, val, ctx cs))
      else (case valid_opt (heap w (opts cs)) of
              Some f \<Rightarrow>
                (if \<not> f (ctx cs) val then (False, emit w ''invalid'' (k, val, ctx cs))
                 else (True, w))
            | None \<Rightarrow> (True, w)))"

text \<open>
  Reading a method of \<open>this.store\<close> or of \<open>this.session\<close> when there is no such
  object raises a \<open>TypeError\<close>.
\<close>

definition type_error :: jserror where
  "type_error = \<lparr>kind = TypeError, message = ''not an object'', headers = None\<rparr>"

text \<open>
  \<open>this.prevHash = util.hash(this.session.toJSON())\<close>. The function \<open>util.hash\<close> is
  not among the sources: every operation that hashes takes it as the parameter \<open>hash\<close>,
  a function from the serialized session to a number.
\<close>

definition record_prevHash :: "(payload \<Rightarrow> int) \<Rightarrow> world \<Rightarrow> ContextSession \<Rightarrow> unit outcome \<times> world \<times> ContextSession" where
  "record_prevHash hash w cs =
     (case session cs of
        Loaded s \<Rightarrow> (Returned (), w, cs\<lparr>prevHash := Some (hash (toJSON s))\<rparr>)
      | _ \<Rightarrow> (Thrown type_error, w, cs))"

text \<open>
  \<open>initFromExternal()\<close> and \<open>initFromCookie()\<close>; \<open>cookies.get\<close> reads the request's
  cookie of the configured name.
\<close>

definition initFromExternal :: "(payload \<Rightarrow> int) \<Rightarrow> int \<Rightarrow> world \<Rightarrow> ContextSession \<Rightarrow> unit outcome \<times> world \<times> ContextSession" where
  "initFromExternal hash now w cs =
     (let ek = req_cookies (ctx cs) (key (heap w (opts cs))) in
      if \<not> truthy_str ek then
        (let (w1, cs1) = create w cs VUndefined None in (Returned (), w1, cs1))
      else
        (case store cs of
           None \<Rightarrow> (Thrown type_error, w, cs)
         | Some st \<Rightarrow>
             (let w1 = call (StoreGet (the ek) (maxAge (heap w (opts cs))) (rolling (heap w (opts cs)))) w in
              case store_get st (the ek) of
                Inl e \<Rightarrow> (Thrown e, w1, cs)
              | Inr json \<Rightarrow>
                  (let (ok, w2) = valid now w1 cs json ek in
                   if \<not> ok then
                     (let (w3, cs3) = create w2 cs VUndefined None in (Returned (), w3, cs3))
                   else
                     (let (w3, cs3) = create w2 cs json ek in record_prevHash hash w3 cs3)))))"

definition initFromCookie :: "(payload \<Rightarrow> int) \<Rightarrow> int \<Rightarrow> world \<Rightarrow> ContextSession \<Rightarrow> unit outcome \<times> world \<times> ContextSession" where
  "initFromCookie hash now w cs =
     (let cookie = req_cookies (ctx cs) (key (heap w (opts cs))) in
      if \<not> truthy_str cookie then
        (let (w1, cs1) = create w cs VUndefined None in (Returned (), w1, cs1))
      else
        (let w1 = call (Decode (the cookie)) w in
         case decode (heap w (opts cs)) (the cookie) of
           Inl err \<Rightarrow>
             (if kind err \<noteq> SyntaxError then
                (let w2 = call (CookieSet (key (heap w (opts cs))) [] (opts cs)) w1 in
                 (Thrown (err\<lparr>headers := Some (set_cookie_header (effects w2))\<rparr>), w2, cs))
              else
                (let (w2, cs2) = create w1 cs VUndefined None in (Returned (), w2, cs2)))
         | Inr json \<Rightarrow>
             (let (ok, w2) = valid now w1 cs json None in
              if \<not> ok then
                (let (w3, cs3) = create w2 cs VUndefined None in (Returned (), w3, cs3))
              else
                (let (w3, cs3) = create w2 cs json None in record_prevHash hash w3 cs3))))"

text \<open>
  \<open>_shouldSaveSession()\<close>, for the session object \<open>s\<close> held in the slot; the result is
  the reason, the empty string for none. \<open>maxAge / 2\<close> is a division of numbers, not of
  integers.
\<close>

definition shouldSaveSession :: "(payload \<Rightarrow> int) \<Rightarrow> int \<Rightarrow> world \<Rightarrow> ContextSession \<Rightarrow> Session \<Rightarrow> string" where
  "shouldSaveSession hash now w cs s =
     (if requireSave s then ''force''
      else if \<not> truthy_num (prevHash cs) \<and> length (keys (toJSON s)) = 0 then []
      else if prevHash cs \<noteq> Some (hash (toJSON s)) then ''changed''
      else if rolling (heap w (opts cs)) then ''rolling''
      else if renew (heap w (opts cs)) \<and>
              truthy_num (session_expire s) \<and> truthy_num (session_maxAge s) \<and>
              (of_int (the (session_expire s) - now) :: rat) < of_int (the (session_maxAge s)) / 2
        then ''renew''
      else [])"

text \<open>\<open>remove()\<close>.\<close>

definition remove_session :: "world \<Rightarrow> ContextSession \<Rightarrow> unit outcome \<times> world \<times> ContextSession" where
  "remove_session w cs =
     (let k = key (heap w (opts cs)) in
      if truthy_str (externalKey cs) then
        (case store cs of
           None \<Rightarrow> (Thrown type_error, w, cs)
         | Some st \<Rightarrow>
             (let w1 = call (StoreDestroy (the (externalKey cs))) w in
              case store_destroy st (the (externalKey cs)) of
                Some e \<Rightarrow> (Thrown e, w1, cs)
              | None \<Rightarrow> (Returned (), call (CookieSet k [] (opts cs)) w1, cs)))
      else (Returned (), call (CookieSet k [] (opts cs)) w, cs))"

text \<open>\<open>let maxAge = opts.maxAge ? opts.maxAge : ONE_DAY\<close>.\<close>

fun effective_maxAge :: "maxage \<Rightarrow> local_maxAge" where
  "effective_maxAge MUndefined = LNum ONE_DAY"
| "effective_maxAge MSession = LSession"
| "effective_maxAge (MNum n) = (if n \<noteq> 0 then LNum n else LNum ONE_DAY)"

text \<open>\<open>if (typeof maxAge === 'number') maxAge += 10000\<close>.\<close>

fun store_maxAge :: "local_maxAge \<Rightarrow> local_maxAge" where
  "store_maxAge (LNum n) = LNum (n + 10000)"
| "store_maxAge LSession = LSession"

text \<open>
  \<open>save(changed)\<close>, with the reading of \<open>Date.now()\<close> as \<open>now\<close>. A call of the
  store is recorded when it is made, whatever the store answers.
\<close>

definition save :: "bool \<Rightarrow> int \<Rightarrow> world \<Rightarrow> ContextSession \<Rightarrow> unit outcome \<times> world \<times> ContextSession" where
  "save changed now w cs =
     (let r = opts cs; k = key (heap w r) in
      case session cs of
        Loaded s \<Rightarrow>
          (let m = effective_maxAge (maxAge (heap w r));
               (w1, json) =
                 (case m of
                    LSession \<Rightarrow> (w\<lparr>heap := (heap w)(r := (heap w r)\<lparr>maxAge := MUndefined\<rparr>)\<rparr>, toJSON s)
                  | LNum n \<Rightarrow> (w, (toJSON s)\<lparr>expire_field := Some (n + now), maxAge_field := Some n\<rparr>))
           in
             if truthy_str (externalKey cs) then
               (case store cs of
                  None \<Rightarrow> (Thrown type_error, w1, cs)
                | Some st \<Rightarrow>
                    (let w2 = call (StoreSet (the (externalKey cs)) json (store_maxAge m) changed
                                      (rolling (heap w1 r))) w1 in
                     case store_set st (the (externalKey cs)) json of
                       Some e \<Rightarrow> (Thrown e, w2, cs)
                     | None \<Rightarrow> (Returned (), call (CookieSet k (the (externalKey cs)) r) w2, cs)))
             else
               (let w2 = call (Encode json) w1 in
                (Returned (), call (CookieSet k (encode (heap w1 r) json) r) w2, cs)))
      | _ \<Rightarrow> (Thrown type_error, w, cs))"

text \<open>
  \<open>commit()\<close>. \<open>now1\<close> is the clock reading inside \<open>_shouldSaveSession\<close>, \<open>now2\<close>
  the one inside \<open>save\<close>. The hook \<open>beforeSave\<close> changes the session object in place.
\<close>

definition commit :: "(payload \<Rightarrow> int) \<Rightarrow> int \<Rightarrow> int \<Rightarrow> world \<Rightarrow> ContextSession \<Rightarrow> unit outcome \<times> world \<times> ContextSession" where
  "commit hash now1 now2 w cs =
     (case session cs of
        Unset \<Rightarrow> (Returned (), w, cs)
      | Cleared \<Rightarrow> remove_session w cs
      | Loaded s \<Rightarrow>
          (let reason = shouldSaveSession hash now1 w cs s in
           if reason = [] then (Returned (), w, cs)
           else
             (let (w1, cs1) =
                (case beforeSave (heap w (opts cs)) of
                   Some f \<Rightarrow> (call BeforeSave w, cs\<lparr>session := Loaded (f (ctx cs) s)\<rparr>)
                 | None \<Rightarrow> (w, cs))
              in save (reason = ''changed'') now2 w1 cs1)))"

section \<open>Observations on the calls made\<close>

text \<open>The payloads handed to persistence: to \<open>store.set\<close> or to \<open>opts.encode\<close>.\<close>

fun persisted :: "effect list \<Rightarrow> payload list" where
  "persisted [] = []"
| "persisted (StoreSet k p m c r # es) = p # persisted es"
| "persisted (Encode p # es) = p # persisted es"
| "persisted (e # es) = persisted es"

text \<open>The writes: calls of \<open>store.set\<close>, \<open>store.destroy\<close> and \<open>cookies.set\<close>.\<close>

fun is_write :: "effect \<Rightarrow> bool" where
  "is_write (StoreSet k p m c r) = True"
| "is_write (StoreDestroy k) = True"
| "is_write (CookieSet n v r) = True"
| "is_write e = False"

definition writes :: "effect list \<Rightarrow> effect list" where
  "writes es = filter is_write es"

section \<open>The decision table of the specification\<close>





section \<open>A configuration to run the operations on\<close>

definition example_store :: Store where
  "example_store =
     \<lparr>store_get = (\<lambda>k. Inr VUndefined), store_set = (\<lambda>k p. None), store_destroy = (\<lambda>k. None)\<rparr>"

definition example_options :: options where
  "example_options =
     \<lparr>key = ''koa:sess'', maxAge = MNum 86400000, rolling = False, renew = False,
      valid_opt = None, beforeSave = None,
      encode = (\<lambda>p. ''payload''),
      decode = (\<lambda>c. Inl \<lparr>kind = SyntaxError, message = ''Unexpected token'', headers = None\<rparr>),
      genid = (\<lambda>n. replicate (Suc n) CHR ''k''),
      ContextStore = None, store_opt = Some example_store\<rparr>"

definition example_ctx :: koa_ctx where
  "example_ctx = \<lparr>ctx_id = 0, req_cookies = (\<lambda>n. None)\<rparr>"

definition example_world :: world where
  "example_world = \<lparr>heap = (\<lambda>r. example_options), effects = [], immediates = [], ids = 0\<rparr>"

definition example_payload :: payload where
  "example_payload =
     \<lparr>expire_field = None, maxAge_field = None, entries = [(''user'', JStr ''ann'')]\<rparr>"

text \<open>A coordinator in cookie mode holding a session with one key and no baseline.\<close>

definition example_coordinator :: ContextSession where
  "example_coordinator =
     \<lparr>ctx = example_ctx, opts = 0, store = None,
      session = Loaded \<lparr>isNew = True, requireSave = False, content = example_payload\<rparr>,
      externalKey = None, prevHash = None\<rparr>"

text \<open>
  A coordinator in store mode holding a session hydrated at time 0 with a max-age of
  10000 milliseconds, unchanged since (the hash is the constant 1).
\<close>

definition example_hydrated :: ContextSession where
  "example_hydrated =
     \<lparr>ctx = example_ctx, opts = 0, store = Some example_store,
      session = Loaded \<lparr>isNew = False, requireSave = False,
         content = example_payload\<lparr>expire_field := Some 10000, maxAge_field := Some 10000\<rparr>\<rparr>,
      externalKey = Some ''k'', prevHash = Some 1\<rparr>"

text \<open>The example world with \<open>renew\<close> switched on, and with the max-age \<open>'session'\<close>.\<close>

definition renew_world :: world where
  "renew_world = example_world\<lparr>heap := (\<lambda>r. example_options\<lparr>renew := True\<rparr>)\<rparr>"

definition session_world :: world where
  "session_world = example_world\<lparr>heap := (\<lambda>r. example_options\<lparr>maxAge := MSession\<rparr>)\<rparr>"






section \<open>Auxiliary facts\<close>

lemma set_cookie_header_append:
  "set_cookie_header (xs @ ys) = set_cookie_header xs @ set_cookie_header ys"
  by (induction xs rule: set_cookie_header.induct) simp_all

lemma persisted_append: "persisted (xs @ ys) = persisted xs @ persisted ys"
  by (induction xs rule: persisted.induct) simp_all

lemma writes_append: "writes (xs @ ys) = writes xs @ writes ys"
  by (simp add: writes_def)

section \<open>Initialisation from the external store\<close>

text \<open>
  Claim C1, as the code has it. With a store configured and no external-key cookie on the
  request, \<open>initFromExternal\<close> on a freshly constructed coordinator returns normally
  after exactly one call of \<open>genid\<close>, made by \<open>create\<close> during the initialisation and
  not put off until the commit: the new key is the generator's answer and the session is
  brand-new and empty. Committing that session untouched then does nothing at all: no
  store call, no cookie write and no further call of \<open>genid\<close>.
\<close>

theorem initFromExternal_generates_key:
  assumes "store (constructor w c r) \<noteq> None"
    and "\<not> truthy_str (req_cookies c (key (heap w r)))"
  shows "initFromExternal hash now w (constructor w c r) =
           (Returned (),
            w\<lparr>effects := effects w @ [GenId], ids := Suc (ids w)\<rparr>,
            (constructor w c r)\<lparr>externalKey := Some (genid (heap w r) (ids w)),
               session := Loaded \<lparr>isNew = True, requireSave = False, content = empty_payload\<rparr>\<rparr>) \<and>
         commit hash now1 now2 (fst (snd (initFromExternal hash now w (constructor w c r))))
             (snd (snd (initFromExternal hash now w (constructor w c r)))) =
           (Returned (), fst (snd (initFromExternal hash now w (constructor w c r))),
            snd (snd (initFromExternal hash now w (constructor w c r))))"
proof -
  have init: "initFromExternal hash now w (constructor w c r) =
           (Returned (),
            w\<lparr>effects := effects w @ [GenId], ids := Suc (ids w)\<rparr>,
            (constructor w c r)\<lparr>externalKey := Some (genid (heap w r) (ids w)),
               session := Loaded \<lparr>isNew = True, requireSave = False, content = empty_payload\<rparr>\<rparr>)"
    using assms by (simp add: initFromExternal_def create_def call_def Let_def constructor_def)
  show ?thesis unfolding init
    by (simp add: commit_def shouldSaveSession_def constructor_def keys_def toJSON_def
        empty_payload_def)
qed

theorem initFromExternal_generates_key_witness:
  "store (constructor example_world example_ctx 0) \<noteq> None \<and>
   \<not> truthy_str (req_cookies example_ctx (key (heap example_world 0))) \<and>
   effects (fst (snd (initFromExternal (\<lambda>p. 1) 1000 example_world
                        (constructor example_world example_ctx 0)))) = [GenId] \<and>
   externalKey (snd (snd (initFromExternal (\<lambda>p. 1) 1000 example_world
                        (constructor example_world example_ctx 0)))) = Some ''k''"
  using initFromExternal_generates_key [of example_world example_ctx 0 "\<lambda>p. 1" 1000 1000 1001]
  by (simp add: constructor_def example_world_def example_ctx_def example_options_def)

text \<open>
  Claim C1 as it is worded fails. In the example configuration a store is configured, the
  request carries no cookie and nothing has been called yet; after \<open>initFromExternal\<close>
  the call of \<open>genid\<close> has been made, although the session stays empty and the commit
  that follows is a no-op.
\<close>

theorem genid_not_deferred_counterexample:
  "effects example_world = [] \<and>
   req_cookies example_ctx (key (heap example_world 0)) = None \<and>
   store (constructor example_world example_ctx 0) \<noteq> None \<and>
   GenId \<in> set (effects (fst (snd (initFromExternal (\<lambda>p. 1) 1000 example_world
                                     (constructor example_world example_ctx 0))))) \<and>
   commit (\<lambda>p. 1) 1000 1001
      (fst (snd (initFromExternal (\<lambda>p. 1) 1000 example_world (constructor example_world example_ctx 0))))
      (snd (snd (initFromExternal (\<lambda>p. 1) 1000 example_world (constructor example_world example_ctx 0)))) =
   (Returned (),
      fst (snd (initFromExternal (\<lambda>p. 1) 1000 example_world (constructor example_world example_ctx 0))),
      snd (snd (initFromExternal (\<lambda>p. 1) 1000 example_world (constructor example_world example_ctx 0))))"
  by (simp add: initFromExternal_def create_def call_def Let_def constructor_def example_world_def
      example_ctx_def example_options_def commit_def shouldSaveSession_def keys_def toJSON_def
      empty_payload_def)

section \<open>Initialisation from the cookie\<close>

text \<open>
  Claim C4. When the request carries the session cookie and \<open>opts.decode\<close> throws:
  an error that is not a \<open>SyntaxError\<close> makes \<open>initFromCookie\<close> write the cookie
  with the empty value and the configured options, attach the resulting \<open>set-cookie\<close>
  header (which ends with that clearing entry) to the error and throw it again, leaving
  the coordinator as it was; a \<open>SyntaxError\<close> is swallowed, the call returns, the
  slot holds a brand-new empty session, no baseline is recorded and no cookie is written.
\<close>

theorem initFromCookie_decode_failure:
  assumes "req_cookies (ctx cs) (key (heap w (opts cs))) = Some c" and "c \<noteq> []"
    and "decode (heap w (opts cs)) c = Inl err"
  shows "(kind err \<noteq> SyntaxError \<longrightarrow>
            initFromCookie hash now w cs =
              (Thrown (err\<lparr>headers := Some (set_cookie_header (effects w) @
                                             [(key (heap w (opts cs)), [], opts cs)])\<rparr>),
               w\<lparr>effects := effects w @ [Decode c, CookieSet (key (heap w (opts cs))) [] (opts cs)]\<rparr>,
               cs)) \<and>
         (kind err = SyntaxError \<longrightarrow>
            (\<exists>w' cs'. initFromCookie hash now w cs = (Returned (), w', cs') \<and>
               session cs' = Loaded \<lparr>isNew = True, requireSave = False, content = empty_payload\<rparr> \<and>
               prevHash cs' = prevHash cs \<and>
               set_cookie_header (effects w') = set_cookie_header (effects w)))"
  using assms
  by (auto simp: initFromCookie_def create_def call_def Let_def set_cookie_header_append)

theorem initFromCookie_decode_failure_witness:
  "req_cookies (example_ctx\<lparr>req_cookies := (\<lambda>n. Some ''junk'')\<rparr>) ''koa:sess'' = Some ''junk'' \<and>
   initFromCookie (\<lambda>p. 1) 1000
      (example_world\<lparr>heap := (\<lambda>r. example_options\<lparr>store_opt := None,
          decode := (\<lambda>c. Inl \<lparr>kind = OtherError, message = ''bad signature'', headers = None\<rparr>)\<rparr>)\<rparr>)
      \<lparr>ctx = example_ctx\<lparr>req_cookies := (\<lambda>n. Some ''junk'')\<rparr>, opts = 0, store = None,
        session = Unset, externalKey = None, prevHash = None\<rparr> =
     (Thrown \<lparr>kind = OtherError, message = ''bad signature'',
              headers = Some [(''koa:sess'', [], 0)]\<rparr>,
      example_world\<lparr>heap := (\<lambda>r. example_options\<lparr>store_opt := None,
          decode := (\<lambda>c. Inl \<lparr>kind = OtherError, message = ''bad signature'', headers = None\<rparr>)\<rparr>),
        effects := [Decode ''junk'', CookieSet ''koa:sess'' [] 0]\<rparr>,
      \<lparr>ctx = example_ctx\<lparr>req_cookies := (\<lambda>n. Some ''junk'')\<rparr>, opts = 0, store = None,
        session = Unset, externalKey = None, prevHash = None\<rparr>)"
  using initFromCookie_decode_failure [of
      "\<lparr>ctx = example_ctx\<lparr>req_cookies := (\<lambda>n. Some ''junk'')\<rparr>, opts = 0, store = None,
        session = Unset, externalKey = None, prevHash = None\<rparr>"
      "example_world\<lparr>heap := (\<lambda>r. example_options\<lparr>store_opt := None,
          decode := (\<lambda>c. Inl \<lparr>kind = OtherError, message = ''bad signature'', headers = None\<rparr>)\<rparr>)\<rparr>"
      "''junk''"
      "\<lparr>kind = OtherError, message = ''bad signature'', headers = None\<rparr>"
      "\<lambda>p. 1" 1000]
  by (simp add: example_world_def example_ctx_def example_options_def)

section \<open>Assignment to the session slot\<close>

text \<open>
  Claim C5. For every value given to the setter: \<open>null\<close> puts the slot in the cleared
  state; any other value whose \<open>typeof\<close> is \<open>object\<close> (a mapping; the test lets an
  array through as well) replaces the session object by a new one made from the value,
  and an external key already established is kept, with no call of \<open>genid\<close>; a value
  of any other type makes the setter throw at once, and world and coordinator stay as they
  were.
\<close>

theorem set_session_by_type:
  "(v = VNull \<longrightarrow> set_session w cs v = (Returned (), w, cs\<lparr>session := Cleared\<rparr>)) \<and>
   (v \<noteq> VNull \<and> typeof v = ''object'' \<longrightarrow>
      (\<exists>w' cs'. set_session w cs v = (Returned (), w', cs') \<and>
         session cs' = Loaded (Session_new (ctx cs) v) \<and>
         (truthy_str (externalKey cs) \<longrightarrow> externalKey cs' = externalKey cs \<and> w' = w))) \<and>
   (typeof v \<noteq> ''object'' \<longrightarrow>
      (\<exists>e. set_session w cs v = (Thrown e, w, cs) \<and>
         message e = ''this.session can only be set as null or an object.''))"
  by (auto simp: set_session_def create_def Let_def)

theorem set_session_by_type_witness:
  "set_session example_world (constructor example_world example_ctx 0) VNull =
     (Returned (), example_world, (constructor example_world example_ctx 0)\<lparr>session := Cleared\<rparr>) \<and>
   (\<exists>w' cs'. set_session example_world ((constructor example_world example_ctx 0)\<lparr>externalKey := Some ''abc''\<rparr>)
        (VObj \<lparr>expire_field = None, maxAge_field = None, entries = [(''user'', JStr ''ann'')]\<rparr>) = (Returned (), w', cs') \<and>
      session cs' = Loaded \<lparr>isNew = False, requireSave = False,
         content = \<lparr>expire_field = None, maxAge_field = None, entries = [(''user'', JStr ''ann'')]\<rparr>\<rparr> \<and>
      externalKey cs' = Some ''abc'' \<and> w' = example_world) \<and>
   (\<exists>e. set_session example_world (constructor example_world example_ctx 0) (VNum 7) =
        (Thrown e, example_world, constructor example_world example_ctx 0) \<and>
      message e = ''this.session can only be set as null or an object.'')"
  using set_session_by_type [of VNull example_world "constructor example_world example_ctx 0"]
    set_session_by_type [of "VObj \<lparr>expire_field = None, maxAge_field = None, entries = [(''user'', JStr ''ann'')]\<rparr>"
       example_world "(constructor example_world example_ctx 0)\<lparr>externalKey := Some ''abc''\<rparr>"]
    set_session_by_type [of "VNum 7" example_world "constructor example_world example_ctx 0"]
  by (simp add: constructor_def)

section \<open>Removal\<close>

text \<open>
  Claim C6. Setting the slot to \<open>null\<close> clears it, and the commit that follows performs
  the removal. Provided the store answers the \<open>destroy\<close> call when an external key
  exists, the commit returns and the calls it makes are exactly these, in this order: one
  \<open>store.destroy\<close> of the external key if and only if there is one, then one cookie
  write with the empty value and the configured options. There is no \<open>store.set\<close>,
  no \<open>encode\<close> and no cookie write with a value.
\<close>

theorem commit_after_null:
  assumes "truthy_str (externalKey cs) \<longrightarrow>
             (\<exists>st. store cs = Some st \<and> store_destroy st (the (externalKey cs)) = None)"
  shows "set_session w cs VNull = (Returned (), w, cs\<lparr>session := Cleared\<rparr>) \<and>
         commit hash now1 now2 w (cs\<lparr>session := Cleared\<rparr>) =
           (Returned (),
            w\<lparr>effects := effects w @
                 (if truthy_str (externalKey cs) then [StoreDestroy (the (externalKey cs))] else []) @
                 [CookieSet (key (heap w (opts cs))) [] (opts cs)]\<rparr>,
            cs\<lparr>session := Cleared\<rparr>)"
  using assms by (auto simp: set_session_def commit_def remove_session_def call_def Let_def)

theorem commit_after_null_witness:
  "truthy_str (externalKey ((constructor example_world example_ctx 0)\<lparr>externalKey := Some ''k''\<rparr>)) \<and>
   store_destroy example_store ''k'' = None \<and>
   effects (fst (snd (commit (\<lambda>p. 1) 1000 1001 example_world
      ((constructor example_world example_ctx 0)\<lparr>externalKey := Some ''k'', session := Cleared\<rparr>)))) =
     [StoreDestroy ''k'', CookieSet ''koa:sess'' [] 0] \<and>
   effects (fst (snd (commit (\<lambda>p. 1) 1000 1001 example_world
      ((constructor example_world example_ctx 0)\<lparr>session := Cleared\<rparr>)))) =
     [CookieSet ''koa:sess'' [] 0]"
  using commit_after_null [of "(constructor example_world example_ctx 0)\<lparr>externalKey := Some ''k''\<rparr>"
      example_world "\<lambda>p. 1" 1000 1001]
    commit_after_null [of "constructor example_world example_ctx 0" example_world "\<lambda>p. 1" 1000 1001]
  by (simp add: constructor_def example_world_def example_options_def example_store_def)



lemma save_persisted:
  assumes "session cs = Loaded s" and "truthy_str (externalKey cs) \<longrightarrow> store cs \<noteq> None"
  shows "persisted (effects (fst (snd (save changed now w cs)))) =
           persisted (effects w) @
             [case effective_maxAge (maxAge (heap w (opts cs))) of
                LSession \<Rightarrow> toJSON s
              | LNum n \<Rightarrow> (toJSON s)\<lparr>expire_field := Some (n + now), maxAge_field := Some n\<rparr>]"
  using assms
  by (cases "effective_maxAge (maxAge (heap w (opts cs)))")
     (auto simp: save_def call_def Let_def persisted_append split: option.splits)

lemma save_writes:
  assumes "session cs = Loaded s" and "truthy_str (externalKey cs) \<longrightarrow> store cs \<noteq> None"
  shows "writes (effects (fst (snd (save changed now w cs)))) \<noteq> writes (effects w)"
  using assms
  by (cases "effective_maxAge (maxAge (heap w (opts cs)))")
     (auto simp: save_def call_def Let_def writes_def split: option.splits)

section \<open>The commit decision\<close>



















section \<open>Validity\<close>

text \<open>
  Claim C3. For every value and optional key, \<open>valid\<close> makes no call of its own (no
  event is emitted during the call) and leaves configuration and key generator alone.
  In this order: a falsy value gives \<open>false\<close> and queues \<open>missed\<close>; a value whose
  \<open>_expire\<close> is set (truthy) and earlier than the clock gives \<open>false\<close> and queues
  \<open>expired\<close>; a value the configured validator rejects gives \<open>false\<close> and queues
  \<open>invalid\<close>; any other value gives \<open>true\<close> and changes nothing. Whenever the
  answer is \<open>false\<close> exactly one callback was queued, and when the queue is run
  after the current turn it calls \<open>app.emit\<close> with the event \<open>session:\<close> followed by
  that name and the data key, value and context.
\<close>

theorem valid_notifies:
  "effects (snd (valid now w cs v k)) = effects w \<and>
   heap (snd (valid now w cs v k)) = heap w \<and>
   ids (snd (valid now w cs v k)) = ids w \<and>
   (\<not> truthy v \<longrightarrow>
      valid now w cs v k = (False, w\<lparr>immediates := immediates w @ [(''missed'', (k, v, ctx cs))]\<rparr>)) \<and>
   (truthy v \<and> (\<exists>e. expire_of v = Some e \<and> e \<noteq> 0 \<and> e < now) \<longrightarrow>
      valid now w cs v k = (False, w\<lparr>immediates := immediates w @ [(''expired'', (k, v, ctx cs))]\<rparr>)) \<and>
   (truthy v \<and> \<not> (\<exists>e. expire_of v = Some e \<and> e \<noteq> 0 \<and> e < now) \<and>
    (\<exists>f. valid_opt (heap w (opts cs)) = Some f \<and> \<not> f (ctx cs) v) \<longrightarrow>
      valid now w cs v k = (False, w\<lparr>immediates := immediates w @ [(''invalid'', (k, v, ctx cs))]\<rparr>)) \<and>
   (truthy v \<and> \<not> (\<exists>e. expire_of v = Some e \<and> e \<noteq> 0 \<and> e < now) \<and>
    \<not> (\<exists>f. valid_opt (heap w (opts cs)) = Some f \<and> \<not> f (ctx cs) v) \<longrightarrow>
      valid now w cs v k = (True, w)) \<and>
   (\<not> fst (valid now w cs v k) \<longrightarrow>
      (\<exists>name \<in> {''missed'', ''expired'', ''invalid''}.
         effects (run_immediates (snd (valid now w cs v k))) =
           effects (run_immediates w) @ [AppEmit (''session:'' @ name) (k, v, ctx cs)]))"
  by (cases "expire_of v"; cases "valid_opt (heap w (opts cs))")
     (auto simp: valid_def emit_def run_immediates_def)

theorem valid_notifies_witness:
  "truthy (VObj (example_payload\<lparr>expire_field := Some 500\<rparr>)) \<and>
   (\<exists>e. expire_of (VObj (example_payload\<lparr>expire_field := Some 500\<rparr>)) = Some e \<and> e \<noteq> 0 \<and> e < 1000) \<and>
   valid 1000 example_world example_coordinator
      (VObj (example_payload\<lparr>expire_field := Some 500\<rparr>)) (Some ''k'') =
     (False, example_world\<lparr>immediates :=
        [(''expired'', (Some ''k'', VObj (example_payload\<lparr>expire_field := Some 500\<rparr>), example_ctx))]\<rparr>) \<and>
   effects (run_immediates (snd (valid 1000 example_world example_coordinator
      (VObj (example_payload\<lparr>expire_field := Some 500\<rparr>)) (Some ''k'')))) =
     [AppEmit ''session:expired''
        (Some ''k'', VObj (example_payload\<lparr>expire_field := Some 500\<rparr>), example_ctx)]"
  using valid_notifies [of 1000 example_world example_coordinator
      "VObj (example_payload\<lparr>expire_field := Some 500\<rparr>)" "Some ''k''"]
  by (simp add: example_coordinator_def example_world_def example_payload_def run_immediates_def)

section \<open>Saving\<close>

text \<open>
  Claim C7. \<open>save\<close> hands exactly one payload to persistence (to \<open>store.set\<close> in store
  mode, to \<open>encode\<close> in cookie mode). One day is 86400000 milliseconds. When the
  configured max-age is \<open>'session'\<close> the payload is the serialized session as it is,
  with nothing stamped into it; when it is a non-zero number \<open>n\<close> the payload is the
  serialized session with \<open>_expire\<close> set to now plus \<open>n\<close> and \<open>_maxAge\<close> set to
  \<open>n\<close>; when it is unset (or 0) the same holds with one day for \<open>n\<close>.
\<close>

theorem save_stamps:
  assumes "session cs = Loaded s" and "truthy_str (externalKey cs) \<longrightarrow> store cs \<noteq> None"
  shows "ONE_DAY = 86400000 \<and>
         (maxAge (heap w (opts cs)) = MSession \<longrightarrow>
            persisted (effects (fst (snd (save changed now w cs)))) =
              persisted (effects w) @ [toJSON s]) \<and>
         (\<forall>n. maxAge (heap w (opts cs)) = MNum n \<and> n \<noteq> 0 \<longrightarrow>
            persisted (effects (fst (snd (save changed now w cs)))) =
              persisted (effects w) @
                [(toJSON s)\<lparr>expire_field := Some (now + n), maxAge_field := Some n\<rparr>]) \<and>
         (maxAge (heap w (opts cs)) = MUndefined \<or> maxAge (heap w (opts cs)) = MNum 0 \<longrightarrow>
            persisted (effects (fst (snd (save changed now w cs)))) =
              persisted (effects w) @
                [(toJSON s)\<lparr>expire_field := Some (now + 86400000), maxAge_field := Some 86400000\<rparr>])"
  unfolding save_persisted [OF assms]
  by (auto simp: ONE_DAY_def add.commute)

theorem save_stamps_witness:
  "session example_coordinator =
     Loaded \<lparr>isNew = True, requireSave = False, content = example_payload\<rparr> \<and>
   \<not> truthy_str (externalKey example_coordinator) \<and>
   maxAge (heap example_world 0) = MNum 86400000 \<and>
   persisted (effects (fst (snd (save True 1000 example_world example_coordinator)))) =
     [\<lparr>expire_field = Some 86401000, maxAge_field = Some 86400000, entries = [(''user'', JStr ''ann'')]\<rparr>]"
  using save_stamps [of example_coordinator
     "\<lparr>isNew = True, requireSave = False, content = example_payload\<rparr>" example_world True 1000]
  by (simp add: example_coordinator_def example_world_def example_options_def example_payload_def
      toJSON_def ONE_DAY_def)

text \<open>
  Claim C9. In store mode (the external key is a non-empty string and the store answers
  the call), every \<open>save\<close> makes exactly two calls and returns: first \<open>store.set\<close>
  with the external key, the payload, a third argument and the options \<open>changed\<close> and
  \<open>rolling\<close>; then the cookie write whose value is the external key itself, under the
  configured cookie name and options. The third argument is the effective max-age plus
  exactly 10000 whenever that is a number (the configured number, or one day when none is
  configured); the string \<open>'session'\<close> is passed on as it is. The coordinator, and so
  its external key, is unchanged.
\<close>

theorem save_store_mode:
  assumes "session cs = Loaded s"
    and "externalKey cs = Some ek" and "ek \<noteq> []"
    and "store cs = Some st" and "\<forall>p. store_set st ek p = None"
  shows "\<exists>json.
           save changed now w cs =
             (Returned (),
              (fst (snd (save changed now w cs)))\<lparr>effects :=
                 effects w @
                   [StoreSet ek json
                      (case maxAge (heap w (opts cs)) of
                         MNum n \<Rightarrow> LNum ((if n \<noteq> 0 then n else 86400000) + 10000)
                       | MUndefined \<Rightarrow> LNum (86400000 + 10000)
                       | MSession \<Rightarrow> LSession)
                      changed (rolling (heap w (opts cs))),
                    CookieSet (key (heap w (opts cs))) ek (opts cs)]\<rparr>,
              cs) \<and>
           persisted (effects (fst (snd (save changed now w cs)))) = persisted (effects w) @ [json]"
  using assms
  by (cases "maxAge (heap w (opts cs))")
     (auto simp: save_def call_def Let_def ONE_DAY_def persisted_append split: option.splits)

theorem save_store_mode_witness:
  "session example_hydrated =
     Loaded \<lparr>isNew = False, requireSave = False,
        content = example_payload\<lparr>expire_field := Some 10000, maxAge_field := Some 10000\<rparr>\<rparr> \<and>
   externalKey example_hydrated = Some ''k'' \<and> store example_hydrated = Some example_store \<and>
   (\<forall>p. store_set example_store ''k'' p = None) \<and>
   effects (fst (snd (save True 1000 example_world example_hydrated))) =
     [StoreSet ''k''
        \<lparr>expire_field = Some 86401000, maxAge_field = Some 86400000, entries = [(''user'', JStr ''ann'')]\<rparr>
        (LNum 86410000) True False,
      CookieSet ''koa:sess'' ''k'' 0]"
  using save_store_mode [of example_hydrated
     "\<lparr>isNew = False, requireSave = False,
        content = example_payload\<lparr>expire_field := Some 10000, maxAge_field := Some 10000\<rparr>\<rparr>"
     "''k''" example_store True 1000 example_world]
  by (simp add: example_hydrated_def example_store_def example_world_def example_options_def
      example_payload_def save_def call_def Let_def toJSON_def)

text \<open>
  Claim C10. When the configured max-age is \<open>'session'\<close>, \<open>save\<close> writes into the
  configuration object itself: afterwards its \<open>maxAge\<close> is unset and nothing else in
  the heap has changed. The write lasts: every coordinator constructed afterwards from
  the same configuration object, for whatever request, reads an unset max-age, and a
  second \<open>save\<close> stamps the one-day default into its payload. In every other case
  \<open>save\<close> leaves all configuration objects as they were.
\<close>

theorem save_clears_session_maxAge:
  assumes "session cs = Loaded s" and "truthy_str (externalKey cs) \<longrightarrow> store cs \<noteq> None"
  shows "(maxAge (heap w (opts cs)) = MSession \<longrightarrow>
            heap (fst (snd (save changed now w cs))) =
              (heap w)(opts cs := (heap w (opts cs))\<lparr>maxAge := MUndefined\<rparr>) \<and>
            (\<forall>c2. maxAge (heap (fst (snd (save changed now w cs)))
                      (opts (constructor (fst (snd (save changed now w cs))) c2 (opts cs)))) = MUndefined) \<and>
            (\<forall>changed2 now2.
               persisted (effects (fst (snd (save changed2 now2 (fst (snd (save changed now w cs)))
                                            (snd (snd (save changed now w cs))))))) =
                 persisted (effects w) @
                   [toJSON s,
                    (toJSON s)\<lparr>expire_field := Some (ONE_DAY + now2), maxAge_field := Some ONE_DAY\<rparr>])) \<and>
         (maxAge (heap w (opts cs)) \<noteq> MSession \<longrightarrow>
            heap (fst (snd (save changed now w cs))) = heap w)"
  using assms
  by (cases "maxAge (heap w (opts cs))")
     (auto simp: save_def call_def Let_def constructor_def persisted_append split: option.splits)

theorem save_clears_session_maxAge_witness:
  "session example_coordinator =
     Loaded \<lparr>isNew = True, requireSave = False, content = example_payload\<rparr> \<and>
   \<not> truthy_str (externalKey example_coordinator) \<and>
   maxAge (heap session_world 0) = MSession \<and>
   maxAge (heap (fst (snd (save True 1000 session_world example_coordinator))) 0) = MUndefined \<and>
   persisted (effects (fst (snd (save True 2000
       (fst (snd (save True 1000 session_world example_coordinator)))
       (snd (snd (save True 1000 session_world example_coordinator))))))) =
     [example_payload,
      example_payload\<lparr>expire_field := Some 86402000, maxAge_field := Some 86400000\<rparr>]"
  using save_clears_session_maxAge [of example_coordinator
     "\<lparr>isNew = True, requireSave = False, content = example_payload\<rparr>" session_world True 1000]
  by (simp add: example_coordinator_def session_world_def example_world_def example_options_def
      toJSON_def ONE_DAY_def)

section \<open>Renewal\<close>

text \<open>
  Claim C8. With \<open>renew\<close> configured and no earlier row of the table matching (no
  force-save flag, the hash equal to the baseline, not the empty session without a
  baseline, \<open>rolling\<close> off): the reason is \<open>renew\<close>, and the commit makes a write, if
  and only if the session has a truthy \<open>_expire\<close> and a truthy max-age and the time left,
  \<open>_expire\<close> minus now, is strictly less than half the max-age; otherwise there is no
  reason and the commit writes nothing.
\<close>

theorem renew_iff_close_to_expiry:
  assumes "session cs = Loaded s"
    and "renew (heap w (opts cs))" and "\<not> rolling (heap w (opts cs))"
    and "\<not> requireSave s"
    and "prevHash cs = Some (hash (toJSON s))"
    and "truthy_num (prevHash cs) \<or> keys (toJSON s) \<noteq> []"
    and "truthy_str (externalKey cs) \<longrightarrow> store cs \<noteq> None"
  shows "(shouldSaveSession hash now w cs s = ''renew'') =
           (\<exists>e m. session_expire s = Some e \<and> e \<noteq> 0 \<and> session_maxAge s = Some m \<and> m \<noteq> 0 \<and>
                   (of_int (e - now) :: rat) < of_int m / 2) \<and>
         (shouldSaveSession hash now w cs s = []) =
           (\<not> (\<exists>e m. session_expire s = Some e \<and> e \<noteq> 0 \<and> session_maxAge s = Some m \<and> m \<noteq> 0 \<and>
                   (of_int (e - now) :: rat) < of_int m / 2)) \<and>
         (writes (effects (fst (snd (commit hash now now2 w cs)))) \<noteq> writes (effects w)) =
           (\<exists>e m. session_expire s = Some e \<and> e \<noteq> 0 \<and> session_maxAge s = Some m \<and> m \<noteq> 0 \<and>
                   (of_int (e - now) :: rat) < of_int m / 2)"
proof -
  define due where "due \<longleftrightarrow>
    (\<exists>e m. session_expire s = Some e \<and> e \<noteq> 0 \<and> session_maxAge s = Some m \<and> m \<noteq> 0 \<and>
            (of_int (e - now) :: rat) < of_int m / 2)"
  have due: "due = (truthy_num (session_expire s) \<and> truthy_num (session_maxAge s) \<and>
      (of_int (the (session_expire s) - now) :: rat) < of_int (the (session_maxAge s)) / 2)"
    unfolding due_def by (cases "session_expire s"; cases "session_maxAge s") simp_all
  have reason: "shouldSaveSession hash now w cs s = (if due then ''renew'' else [])"
    unfolding due using assms(2-6) by (auto simp: shouldSaveSession_def)
  have commit_due: "writes (effects (fst (snd (commit hash now now2 w cs)))) \<noteq> writes (effects w)"
    if due
  proof (cases "beforeSave (heap w (opts cs))")
    case None
    then show ?thesis
      using that assms(1) save_writes [OF assms(1,7), of False now2 w]
      by (simp add: commit_def reason Let_def)
  next
    case (Some f)
    have "writes (effects (fst (snd (save False now2 (call BeforeSave w)
              (cs\<lparr>session := Loaded (f (ctx cs) s)\<rparr>))))) \<noteq> writes (effects (call BeforeSave w))"
      using assms(7) by (intro save_writes [of _ "f (ctx cs) s"]) simp_all
    then show ?thesis
      using that assms(1) Some
      by (simp add: commit_def reason Let_def call_def writes_def)
  qed
  have commit_not: "commit hash now now2 w cs = (Returned (), w, cs)" if "\<not> due"
    using that assms(1) by (simp add: commit_def reason)
  have "(shouldSaveSession hash now w cs s = ''renew'') = due \<and>
        (shouldSaveSession hash now w cs s = []) = (\<not> due) \<and>
        (writes (effects (fst (snd (commit hash now now2 w cs)))) \<noteq> writes (effects w)) = due"
    using reason commit_due commit_not by (cases due) simp_all
  then show ?thesis unfolding due_def .
qed

theorem renew_iff_close_to_expiry_witness:
  "renew (heap renew_world (opts example_hydrated)) \<and>
   \<not> rolling (heap renew_world (opts example_hydrated)) \<and>
   prevHash example_hydrated = Some 1 \<and>
   shouldSaveSession (\<lambda>p. 1) 6000 renew_world example_hydrated
     \<lparr>isNew = False, requireSave = False,
      content = example_payload\<lparr>expire_field := Some 10000, maxAge_field := Some 10000\<rparr>\<rparr> = ''renew'' \<and>
   shouldSaveSession (\<lambda>p. 1) 4000 renew_world example_hydrated
     \<lparr>isNew = False, requireSave = False,
      content = example_payload\<lparr>expire_field := Some 10000, maxAge_field := Some 10000\<rparr>\<rparr> = [] \<and>
   writes (effects (fst (snd (commit (\<lambda>p. 1) 6000 6001 renew_world example_hydrated)))) \<noteq> [] \<and>
   writes (effects (fst (snd (commit (\<lambda>p. 1) 4000 4001 renew_world example_hydrated)))) = []"
  using renew_iff_close_to_expiry [of example_hydrated
     "\<lparr>isNew = False, requireSave = False,
      content = example_payload\<lparr>expire_field := Some 10000, maxAge_field := Some 10000\<rparr>\<rparr>"
     renew_world "\<lambda>p. 1" 6000 6001]
    renew_iff_close_to_expiry [of example_hydrated
     "\<lparr>isNew = False, requireSave = False,
      content = example_payload\<lparr>expire_field := Some 10000, maxAge_field := Some 10000\<rparr>\<rparr>"
     renew_world "\<lambda>p. 1" 4000 4001]
  by (simp add: example_hydrated_def renew_world_def example_world_def example_options_def
      example_payload_def session_expire_def session_maxAge_def writes_def toJSON_def keys_def)

end
